theory Spec2Isabelle
  imports Complex_Main "HOL-Library.Sublist"
begin

section \<open>The usage log store and analytics engine\<close>

text \<open>
  The engine is the TypeScript of the usage-logging document: the classes
  \<^verbatim>\<open>UsageLogger\<close>, \<^verbatim>\<open>MetricsCalculator\<close>, \<^verbatim>\<open>UsageAnalyzer\<close>,
  \<^verbatim>\<open>BenchmarkComparator\<close> and \<^verbatim>\<open>ReportGenerator\<close>. Every function below
  is the function of the same name there, with what JavaScript does at run time written out:
  an exception is a value of \<open>error\<close>, a division by zero is a non-finite number,
  reading a property of \<^verbatim>\<open>undefined\<close> is a \<open>TypeError\<close>.
\<close>

subsection \<open>Numbers\<close>

text \<open>
  A JavaScript number is an IEEE double. The model keeps its three non-finite values apart
  and computes on the finite ones in the reals. Arithmetic follows the IEEE rules for the
  special values: any operation on \<open>NaN\<close> is \<open>NaN\<close>, \<open>0 / 0\<close> is \<open>NaN\<close>,
  \<open>x / 0\<close> is an infinity for \<open>x \<noteq> 0\<close>, and every comparison with \<open>NaN\<close> is
  false. Overflow is modelled: a finite result whose magnitude reaches
  \<open>2^1024 - 2^970\<close>, where a double rounds to infinity, is an infinity (\<open>fin\<close>).
  Rounding below that and the sign of zero are not modelled: a finite result is the exact
  real, so a tiny result does not become zero.
\<close>

datatype jsnum = NaN | PInf | NInf | Fin real

definition fin :: "real \<Rightarrow> jsnum" where
  "fin x = (if \<bar>x\<bar> < 2 ^ 1024 - 2 ^ 970 then Fin x else if x < 0 then NInf else PInf)"

fun js_neg :: "jsnum \<Rightarrow> jsnum" where
  "js_neg NaN = NaN"
| "js_neg PInf = NInf"
| "js_neg NInf = PInf"
| "js_neg (Fin a) = Fin (- a)"

fun js_add :: "jsnum \<Rightarrow> jsnum \<Rightarrow> jsnum" where
  "js_add NaN _ = NaN"
| "js_add _ NaN = NaN"
| "js_add PInf NInf = NaN"
| "js_add NInf PInf = NaN"
| "js_add PInf _ = PInf"
| "js_add _ PInf = PInf"
| "js_add NInf _ = NInf"
| "js_add _ NInf = NInf"
| "js_add (Fin a) (Fin b) = fin (a + b)"

definition js_sub :: "jsnum \<Rightarrow> jsnum \<Rightarrow> jsnum" where
  "js_sub a b = js_add a (js_neg b)"

text \<open>The sign of a number: \<open>None\<close> for \<open>NaN\<close>, otherwise \<open>-1\<close>, \<open>0\<close> or \<open>1\<close>.\<close>

fun js_sign :: "jsnum \<Rightarrow> int option" where
  "js_sign NaN = None"
| "js_sign PInf = Some 1"
| "js_sign NInf = Some (- 1)"
| "js_sign (Fin a) = Some (if a < 0 then - 1 else if a = 0 then 0 else 1)"

definition signed_inf :: "int \<Rightarrow> jsnum" where
  "signed_inf s = (if s < 0 then NInf else PInf)"

fun js_mul :: "jsnum \<Rightarrow> jsnum \<Rightarrow> jsnum" where
  "js_mul (Fin a) (Fin b) = fin (a * b)"
| "js_mul a b =
     (case (js_sign a, js_sign b) of
        (Some s, Some t) \<Rightarrow> (if s * t = 0 then NaN else signed_inf (s * t))
      | _ \<Rightarrow> NaN)"

fun is_inf :: "jsnum \<Rightarrow> bool" where
  "is_inf PInf = True"
| "is_inf NInf = True"
| "is_inf _ = False"

fun js_div :: "jsnum \<Rightarrow> jsnum \<Rightarrow> jsnum" where
  "js_div (Fin a) (Fin b) =
     (if b = 0 then (if a = 0 then NaN else if a < 0 then NInf else PInf) else fin (a / b))"
| "js_div a b =
     (case (js_sign a, js_sign b) of
        (Some s, Some t) \<Rightarrow>
          (if is_inf a \<and> is_inf b then NaN
           else if is_inf b then Fin 0
           else signed_inf (if t < 0 then - s else s))
      | _ \<Rightarrow> NaN)"

fun js_lt :: "jsnum \<Rightarrow> jsnum \<Rightarrow> bool" where
  "js_lt NaN _ = False"
| "js_lt _ NaN = False"
| "js_lt PInf _ = False"
| "js_lt _ NInf = False"
| "js_lt NInf _ = True"
| "js_lt _ PInf = True"
| "js_lt (Fin a) (Fin b) = (a < b)"

definition js_gt :: "jsnum \<Rightarrow> jsnum \<Rightarrow> bool" where
  "js_gt a b = js_lt b a"

definition js_ge :: "jsnum \<Rightarrow> jsnum \<Rightarrow> bool" where
  "js_ge a b = (js_lt b a \<or> (a \<noteq> NaN \<and> a = b))"

text \<open>\<^verbatim>\<open>Math.min(...xs)\<close> and \<^verbatim>\<open>Math.max(...xs)\<close>: the identity is an infinity,
  and a \<open>NaN\<close> argument makes the result \<open>NaN\<close>.\<close>

definition js_min :: "jsnum \<Rightarrow> jsnum \<Rightarrow> jsnum" where
  "js_min a b = (if a = NaN \<or> b = NaN then NaN else if js_lt b a then b else a)"

definition js_max :: "jsnum \<Rightarrow> jsnum \<Rightarrow> jsnum" where
  "js_max a b = (if a = NaN \<or> b = NaN then NaN else if js_lt a b then b else a)"

definition Math_min :: "jsnum list \<Rightarrow> jsnum" where
  "Math_min xs = foldl js_min PInf xs"

definition Math_max :: "jsnum list \<Rightarrow> jsnum" where
  "Math_max xs = foldl js_max NInf xs"

text \<open>\<^verbatim>\<open>new Date(x)\<close> for a number \<open>x\<close>: the time value is \<open>x\<close> truncated to
  an integer, and \<open>NaN\<close> (an invalid date) outside \<open>\<plusminus>8.64e15\<close> ms.\<close>

definition Date_of_number :: "jsnum \<Rightarrow> jsnum" where
  "Date_of_number x =
     (case x of
        Fin a \<Rightarrow> (if \<bar>a\<bar> \<le> 8640000000000000
                  then Fin (if 0 \<le> a then of_int \<lfloor>a\<rfloor> else of_int \<lceil>a\<rceil>) else NaN)
      | _ \<Rightarrow> NaN)"

subsection \<open>Errors\<close>

text \<open>
  The exceptions the engine can raise. \<open>ENOENT\<close> is caught by \<open>load\<close>; \<open>EACCES\<close>
  stands for any other failure of the file system; \<open>SyntaxError\<close> is
  \<^verbatim>\<open>JSON.parse\<close> rejecting the file; \<open>RangeError\<close> is
  \<^verbatim>\<open>toISOString\<close> on an invalid date. \<open>ComputationUndefined\<close> is the error the
  specification names; no operation of the source raises it.
\<close>

datatype error =
  ENOENT | EACCES | SyntaxError | ReferenceError | TypeError | RangeError | ComputationUndefined

subsection \<open>Data model\<close>

text \<open>
  What a numeric property of an entry can hold: a number, \<^verbatim>\<open>null\<close> (what a
  non-finite number becomes in the JSON file) or nothing at all (\<^verbatim>\<open>undefined\<close>: the
  usage tracker writes entries without \<open>tokensUsed\<close> and \<open>cost\<close>). In arithmetic
  \<^verbatim>\<open>null\<close> counts as \<open>0\<close> and \<^verbatim>\<open>undefined\<close> as \<open>NaN\<close>.
\<close>

datatype jsvalue = Undefined | Null | Number jsnum

fun to_number :: "jsvalue \<Rightarrow> jsnum" where
  "to_number Undefined = NaN"
| "to_number Null = Fin 0"
| "to_number (Number x) = x"

text \<open>
  An element of \<^verbatim>\<open>metadata.errors\<close>: an \<^verbatim>\<open>Error\<close> object, with its message and
  the enumerable properties it may carry besides (such as \<^verbatim>\<open>code\<close> of a system
  error), or the plain object that is left of it in JSON.
\<close>

datatype jserror =
  ErrorObject string "(string \<times> string) list"
| JsonObject "(string \<times> string) list"

text \<open>
  \<^verbatim>\<open>interface UsageLog\<close>. The invocation type is the string the code compares with
  \<^verbatim>\<open>'skill'\<close>, \<^verbatim>\<open>'command'\<close> and \<^verbatim>\<open>'rule'\<close>. The field \<open>ident\<close> is
  the source's \<^verbatim>\<open>id\<close>, \<open>ctx\<close> its \<^verbatim>\<open>context\<close> and \<open>entry_metadata\<close>
  its optional \<^verbatim>\<open>metadata\<close>, the three names being taken here. \<open>files\<close> is
  optional as well: the usage tracker leaves it out.
\<close>

record Invocation =
  type :: string
  name :: string
  category :: string

record Context =
  task :: string
  project :: string
  files :: "string list option"

record Outcome =
  success :: bool
  duration :: jsvalue
  tokensUsed :: jsvalue
  cost :: jsvalue

record Metadata =
  model :: "string option"
  sessionId :: "string option"
  toolCalls :: "string list option"
  errors :: "jserror list option"

record UsageLog =
  ident :: string
  timestamp :: string
  agent :: string
  invocation :: Invocation
  ctx :: Context
  outcome :: Outcome
  entry_metadata :: "Metadata option"

record ProductivityMetrics =
  totalInvocations :: nat
  skillInvocations :: nat
  commandInvocations :: nat
  ruleApplications :: nat
  averageDuration :: jsnum
  totalDuration :: jsnum
  successRate :: jsnum
  failureRate :: jsnum
  totalTokensUsed :: jsnum
  totalCost :: jsnum
  invocationsPerHour :: jsnum
  tokensPerTask :: jsnum

subsection \<open>Metrics Calculator\<close>

text \<open>\<^verbatim>\<open>x || 0\<close> on a numeric property: \<^verbatim>\<open>undefined\<close>, \<^verbatim>\<open>null\<close>,
  \<open>0\<close> and \<open>NaN\<close> are false and read as \<open>0\<close>.\<close>

fun or0 :: "jsvalue \<Rightarrow> jsnum" where
  "or0 (Number x) = (if x = NaN \<or> x = Fin 0 then Fin 0 else x)"
| "or0 _ = Fin 0"

record TimeRange =
  tr_start :: jsnum
  tr_end :: jsnum
  tr_duration :: jsnum

text \<open>
  \<open>getTimeRange\<close>. The parameter \<open>parseDate\<close> is the built-in
  \<^verbatim>\<open>new Date(string)\<close>: the time value in milliseconds of a timestamp string, \<open>NaN\<close>
  for a string that is not a date.
\<close>

definition getTimeRange :: "(string \<Rightarrow> jsnum) \<Rightarrow> UsageLog list \<Rightarrow> TimeRange" where
  "getTimeRange parseDate metrics =
     (let timestamps = map (\<lambda>m. parseDate (timestamp m)) metrics;
          start = Date_of_number (Math_min timestamps);
          end' = Date_of_number (Math_max timestamps);
          duration' = js_sub end' start
      in \<lparr>tr_start = start, tr_end = end', tr_duration = duration'\<rparr>)"

definition calculateInvocationsPerHour :: "(string \<Rightarrow> jsnum) \<Rightarrow> UsageLog list \<Rightarrow> jsnum" where
  "calculateInvocationsPerHour parseDate metrics =
     (let timeRange = getTimeRange parseDate metrics;
          hours = js_div (tr_duration timeRange) (Fin (1000 * 60 * 60))
      in js_div (Fin (real (length metrics))) hours)"

text \<open>
  \<open>calculate\<close>. The last property of the object it returns is
  \<^verbatim>\<open>tokensPerTask: totalTokensUsed / total\<close>, where \<^verbatim>\<open>totalTokensUsed\<close> is an
  identifier, not the property of the same name written four lines above it: the function
  declares no such variable, so the identifier is looked up in the enclosing scope, which
  the source does not show. The parameter \<open>scope\<close> is that lookup: \<open>None\<close> when no
  declaration is in scope, as in the source as it stands, where evaluating the identifier
  throws a \<open>ReferenceError\<close> after the other properties have been computed; \<open>Some v\<close>
  when the scope binds the identifier to the number \<open>v\<close>.
\<close>

definition calculate ::
  "jsnum option \<Rightarrow> (string \<Rightarrow> jsnum) \<Rightarrow> UsageLog list \<Rightarrow> error + ProductivityMetrics" where
  "calculate scope parseDate metrics =
     (let total = length metrics;
          successful = filter (\<lambda>m. success (outcome m)) metrics;
          skillInvocations' = filter (\<lambda>m. type (invocation m) = ''skill'') metrics;
          commandInvocations' = filter (\<lambda>m. type (invocation m) = ''command'') metrics;
          ruleApplications' = filter (\<lambda>m. type (invocation m) = ''rule'') metrics;
          totalDuration' =
            foldl (\<lambda>sum m. js_add sum (to_number (duration (outcome m)))) (Fin 0) metrics;
          averageDuration' = js_div totalDuration' (Fin (real total))
      in case scope of
           None \<Rightarrow> Inl ReferenceError
         | Some totalTokensUsed' \<Rightarrow>
             Inr \<lparr>totalInvocations = total,
                  skillInvocations = length skillInvocations',
                  commandInvocations = length commandInvocations',
                  ruleApplications = length ruleApplications',
                  averageDuration = averageDuration',
                  totalDuration = totalDuration',
                  successRate =
                    js_mul (js_div (Fin (real (length successful))) (Fin (real total))) (Fin 100),
                  failureRate =
                    js_mul (js_div (Fin (real (total - length successful))) (Fin (real total)))
                      (Fin 100),
                  totalTokensUsed =
                    foldl (\<lambda>sum m. js_add sum (or0 (tokensUsed (outcome m)))) (Fin 0) metrics,
                  totalCost =
                    foldl (\<lambda>sum m. js_add sum (or0 (cost (outcome m)))) (Fin 0) metrics,
                  invocationsPerHour = calculateInvocationsPerHour parseDate metrics,
                  tokensPerTask = js_div totalTokensUsed' (Fin (real total))\<rparr>)"

subsection \<open>Log Store\<close>

text \<open>
  \<^verbatim>\<open>interface UsageLogStore\<close> and the file that holds it. The file is either missing
  (\<^verbatim>\<open>fs.readFile\<close> fails with \<open>ENOENT\<close>), unreadable for another reason, not
  JSON (\<^verbatim>\<open>JSON.parse\<close> throws), or the JSON text of a store. The text itself is not
  modelled: \<open>Stored s\<close> is a file whose text \<^verbatim>\<open>JSON.parse\<close> reads as \<open>s\<close>.
  \<open>writable\<close> says whether \<^verbatim>\<open>fs.writeFile\<close> succeeds.
\<close>

record StoreMetadata =
  version :: string
  lastUpdated :: string

record UsageLogStore =
  entries :: "UsageLog list"
  metadata :: StoreMetadata

datatype disk = Missing | Unreadable | Unparsable | Stored UsageLogStore

record filesystem =
  disk :: disk
  writable :: bool

text \<open>\<open>load\<close>; \<open>now\<close> is the reading of \<^verbatim>\<open>new Date().toISOString()\<close>.\<close>

definition load :: "filesystem \<Rightarrow> string \<Rightarrow> error + UsageLogStore" where
  "load fs now =
     (case disk fs of
        Stored store \<Rightarrow> Inr store
      | Unparsable \<Rightarrow> Inl SyntaxError
      | Missing \<Rightarrow> Inr \<lparr>entries = [], metadata = \<lparr>version = ''1.0'', lastUpdated = now\<rparr>\<rparr>
      | Unreadable \<Rightarrow> Inl EACCES)"

text \<open>
  What \<^verbatim>\<open>JSON.parse(JSON.stringify(x))\<close> makes of a value. Strings, booleans, finite
  numbers, \<^verbatim>\<open>null\<close>, arrays and absent properties come back as they were. A number
  that is not finite comes back as \<^verbatim>\<open>null\<close>, and an \<^verbatim>\<open>Error\<close> as a plain
  object with its enumerable properties only: the message is lost.
\<close>

fun json_number :: "jsvalue \<Rightarrow> jsvalue" where
  "json_number (Number (Fin x)) = Number (Fin x)"
| "json_number (Number _) = Null"
| "json_number Null = Null"
| "json_number Undefined = Undefined"

fun json_error :: "jserror \<Rightarrow> jserror" where
  "json_error (ErrorObject message props) = JsonObject props"
| "json_error (JsonObject props) = JsonObject props"

definition json_outcome :: "Outcome \<Rightarrow> Outcome" where
  "json_outcome out =
     out\<lparr>duration := json_number (duration out),
         tokensUsed := json_number (tokensUsed out),
         cost := json_number (cost out)\<rparr>"

definition json_metadata :: "Metadata \<Rightarrow> Metadata" where
  "json_metadata md = md\<lparr>errors := map_option (map json_error) (errors md)\<rparr>"

definition json_entry :: "UsageLog \<Rightarrow> UsageLog" where
  "json_entry entry =
     entry\<lparr>outcome := json_outcome (outcome entry),
           entry_metadata := map_option json_metadata (entry_metadata entry)\<rparr>"

definition json_store :: "UsageLogStore \<Rightarrow> UsageLogStore" where
  "json_store store = store\<lparr>entries := map json_entry (entries store)\<rparr>"

text \<open>
  The entries that JSON represents as they are: every numeric property is a finite number,
  \<^verbatim>\<open>null\<close> or absent, and no element of \<^verbatim>\<open>metadata.errors\<close> is an
  \<^verbatim>\<open>Error\<close> object.
\<close>

fun json_safe_number :: "jsvalue \<Rightarrow> bool" where
  "json_safe_number (Number (Fin x)) = True"
| "json_safe_number (Number _) = False"
| "json_safe_number _ = True"

fun plain_error :: "jserror \<Rightarrow> bool" where
  "plain_error (ErrorObject _ _) = False"
| "plain_error (JsonObject _) = True"

definition json_safe :: "UsageLog \<Rightarrow> bool" where
  "json_safe entry =
     (json_safe_number (duration (outcome entry))
      \<and> json_safe_number (tokensUsed (outcome entry))
      \<and> json_safe_number (cost (outcome entry))
      \<and> (case entry_metadata entry of
            None \<Rightarrow> True
          | Some md \<Rightarrow> (case errors md of None \<Rightarrow> True | Some es \<Rightarrow> list_all plain_error es)))"

text \<open>\<open>save\<close> writes \<^verbatim>\<open>JSON.stringify(store)\<close>: what the file then parses to is the
  JSON round trip of the store.\<close>

definition save :: "filesystem \<Rightarrow> string \<Rightarrow> UsageLogStore \<Rightarrow> error + filesystem" where
  "save fs now store =
     (let store' = store\<lparr>metadata := (metadata store)\<lparr>lastUpdated := now\<rparr>\<rparr>
      in if writable fs then Inr (fs\<lparr>disk := Stored (json_store store')\<rparr>) else Inl EACCES)"

text \<open>
  \<open>log\<close>. \<open>newId\<close> is what \<^verbatim>\<open>generateId()\<close> returns in this call (the function
  is not part of the source); \<open>now0\<close>, \<open>now1\<close>, \<open>now2\<close> are the clock readings
  of \<open>load\<close>, of the entry's timestamp and of \<open>save\<close>.
\<close>

definition log ::
  "filesystem \<Rightarrow> string \<Rightarrow> string \<Rightarrow> string \<Rightarrow> string \<Rightarrow> UsageLog \<Rightarrow> error + filesystem" where
  "log fs newId now0 now1 now2 entry =
     (case load fs now0 of
        Inl e \<Rightarrow> Inl e
      | Inr store \<Rightarrow>
          (let entry' = entry\<lparr>ident := newId, timestamp := now1\<rparr>;
               store' = store\<lparr>entries := entries store @ [entry']\<rparr>
           in save fs now2 store'))"

text \<open>
  \<^verbatim>\<open>LogFilters\<close>, as \<open>matches\<close> reads it: two optional strings and two optional
  \<^verbatim>\<open>Date\<close> objects, each given by its time value.
\<close>

record LogFilters =
  f_agent :: "string option"
  f_startTime :: "jsnum option"
  f_endTime :: "jsnum option"
  f_category :: "string option"

text \<open>The truth value of an optional string in a condition: \<^verbatim>\<open>undefined\<close> and
  the empty string are false.\<close>

definition truthy :: "string option \<Rightarrow> bool" where
  "truthy x = (case x of None \<Rightarrow> False | Some s \<Rightarrow> s \<noteq> [])"

definition matches :: "(string \<Rightarrow> jsnum) \<Rightarrow> UsageLog \<Rightarrow> LogFilters \<Rightarrow> bool" where
  "matches parseDate entry filters =
     (if truthy (f_agent filters) \<and> Some (agent entry) \<noteq> f_agent filters then False
      else if (case f_startTime filters of
                 None \<Rightarrow> False
               | Some startTime \<Rightarrow> js_lt (parseDate (timestamp entry)) startTime) then False
      else if (case f_endTime filters of
                 None \<Rightarrow> False
               | Some endTime \<Rightarrow> js_gt (parseDate (timestamp entry)) endTime) then False
      else if truthy (f_category filters)
              \<and> Some (category (invocation entry)) \<noteq> f_category filters then False
      else True)"

definition query ::
  "(string \<Rightarrow> jsnum) \<Rightarrow> filesystem \<Rightarrow> string \<Rightarrow> LogFilters \<Rightarrow> error + UsageLog list" where
  "query parseDate fs now filters =
     (case load fs now of
        Inl e \<Rightarrow> Inl e
      | Inr store \<Rightarrow> Inr (filter (\<lambda>entry. matches parseDate entry filters) (entries store)))"

text \<open>
  The filter condition in the words of the specification, to compare \<open>matches\<close> with.
  An agent or category filter is supplied when it is a non-empty string, and an entry
  satisfies it by having that agent or category; an entry satisfies a start time when its
  timestamp is at or after it, and an end time when its timestamp is at or before it, two
  conditions that hold as well when the timestamp or the bound is not a valid date.
\<close>

definition satisfies_filters :: "(string \<Rightarrow> jsnum) \<Rightarrow> LogFilters \<Rightarrow> UsageLog \<Rightarrow> bool" where
  "satisfies_filters parseDate filters entry =
     ((case f_agent filters of None \<Rightarrow> True | Some a \<Rightarrow> a = [] \<or> agent entry = a)
      \<and> (case f_category filters of
            None \<Rightarrow> True
          | Some c \<Rightarrow> c = [] \<or> category (invocation entry) = c)
      \<and> (case f_startTime filters of
            None \<Rightarrow> True
          | Some startTime \<Rightarrow>
              js_ge (parseDate (timestamp entry)) startTime
              \<or> parseDate (timestamp entry) = NaN \<or> startTime = NaN)
      \<and> (case f_endTime filters of
            None \<Rightarrow> True
          | Some endTime \<Rightarrow>
              js_ge endTime (parseDate (timestamp entry))
              \<or> parseDate (timestamp entry) = NaN \<or> endTime = NaN))"

subsection \<open>Usage Analyzer\<close>

datatype TimeOfDay = morning | afternoon | evening | night

record UsagePattern =
  skill :: string
  frequency :: nat
  pat_averageDuration :: jsnum
  pat_successRate :: jsnum
  timeOfDay :: TimeOfDay

text \<open>
  The two kinds of object the analysis builds. A \<^verbatim>\<open>Map\<close> keeps its entries, in
  insertion order, in an internal slot: \<^verbatim>\<open>map.entries()\<close> yields them, while
  \<^verbatim>\<open>Object.entries(map)\<close> lists the own enumerable string-keyed properties of the
  object, and a \<^verbatim>\<open>Map\<close> has none.
\<close>

datatype 'v jsobject = PlainObject "(string \<times> 'v) list" | MapObject "(string \<times> 'v) list"

fun Object_entries :: "'v jsobject \<Rightarrow> (string \<times> 'v) list" where
  "Object_entries (PlainObject props) = props"
| "Object_entries (MapObject _) = []"

fun Map_entries :: "'v jsobject \<Rightarrow> (string \<times> 'v) list" where
  "Map_entries (MapObject kvs) = kvs"
| "Map_entries (PlainObject _) = []"

text \<open>The body of the loop of \<open>groupBySkill\<close> on the entries of the map:
  \<^verbatim>\<open>if (!groups.has(skill)) groups.set(skill, []); groups.get(skill).push(m)\<close>.\<close>

fun push_group :: "(string \<times> 'a list) list \<Rightarrow> string \<Rightarrow> 'a \<Rightarrow> (string \<times> 'a list) list" where
  "push_group [] k m = [(k, [m])]"
| "push_group ((k', ms) # groups) k m =
     (if k' = k then (k', ms @ [m]) # groups else (k', ms) # push_group groups k m)"

definition group_entries :: "UsageLog list \<Rightarrow> (string \<times> UsageLog list) list" where
  "group_entries metrics =
     foldl (\<lambda>groups m.
              if type (invocation m) = ''skill'' then push_group groups (name (invocation m)) m
              else groups) [] metrics"

definition groupBySkill :: "UsageLog list \<Rightarrow> UsageLog list jsobject" where
  "groupBySkill metrics = MapObject (group_entries metrics)"

definition getTimeOfDay :: "jsnum \<Rightarrow> TimeOfDay" where
  "getTimeOfDay hour =
     (if js_ge hour (Fin 5) \<and> js_lt hour (Fin 12) then morning
      else if js_ge hour (Fin 12) \<and> js_lt hour (Fin 17) then afternoon
      else if js_ge hour (Fin 17) \<and> js_lt hour (Fin 21) then evening
      else night)"

text \<open>\<^verbatim>\<open>s.split(c)\<close> for a one-character separator, and \<^verbatim>\<open>xs[i]\<close>, which is
  \<^verbatim>\<open>undefined\<close> (\<open>None\<close>) out of range.\<close>

fun split_acc :: "char \<Rightarrow> string \<Rightarrow> string \<Rightarrow> string list" where
  "split_acc c cur [] = [rev cur]"
| "split_acc c cur (x # xs) =
     (if x = c then rev cur # split_acc c [] xs else split_acc c (x # cur) xs)"

definition split :: "char \<Rightarrow> string \<Rightarrow> string list" where
  "split c s = split_acc c [] s"

definition at_index :: "'a list \<Rightarrow> nat \<Rightarrow> 'a option" where
  "at_index xs i = (if i < length xs then Some (xs ! i) else None)"

text \<open>
  \<^verbatim>\<open>parseInt(x)\<close> with no radix, on ASCII text: leading white space is skipped, then an
  optional sign, then \<^verbatim>\<open>0x\<close> selects base 16, then the longest run of digits is read;
  with no digit the result is \<open>NaN\<close>. \<^verbatim>\<open>undefined\<close> is read as the text
  \<^verbatim>\<open>"undefined"\<close>, which has no digit.
\<close>

definition is_white :: "char \<Rightarrow> bool" where
  "is_white c = (of_char c \<in> {9, 10, 11, 12, 13, 32 :: nat})"

definition digit_value :: "char \<Rightarrow> nat option" where
  "digit_value c =
     (let n = (of_char c :: nat)
      in if 48 \<le> n \<and> n \<le> 57 then Some (n - 48)
         else if 97 \<le> n \<and> n \<le> 122 then Some (n - 87)
         else if 65 \<le> n \<and> n \<le> 90 then Some (n - 55)
         else None)"

definition is_digit :: "nat \<Rightarrow> char \<Rightarrow> bool" where
  "is_digit radix c = (case digit_value c of None \<Rightarrow> False | Some d \<Rightarrow> d < radix)"

definition digits_value :: "nat \<Rightarrow> string \<Rightarrow> nat" where
  "digits_value radix ds = foldl (\<lambda>acc c. acc * radix + the (digit_value c)) 0 ds"

definition parseInt :: "string option \<Rightarrow> jsnum" where
  "parseInt x =
     (case x of
        None \<Rightarrow> NaN
      | Some s \<Rightarrow>
          (let s1 = dropWhile is_white s;
               negative = (s1 \<noteq> [] \<and> hd s1 = CHR ''-'');
               s2 = (if s1 \<noteq> [] \<and> (hd s1 = CHR ''-'' \<or> hd s1 = CHR ''+'') then tl s1 else s1);
               hex = (take 2 s2 = ''0x'' \<or> take 2 s2 = ''0X'');
               radix = (if hex then 16 else 10);
               s3 = (if hex then drop 2 s2 else s2);
               ds = takeWhile (is_digit radix) s3
           in if ds = [] then NaN
              else fin (if negative then - real (digits_value radix ds)
                        else real (digits_value radix ds))))"

text \<open>The body of the loop of \<open>analyzePatterns\<close> for one \<open>[skill, skillMetrics]\<close>
  pair; \<^verbatim>\<open>skillMetrics[0].timestamp\<close> throws when the group is empty.\<close>

definition patternOf :: "string \<times> UsageLog list \<Rightarrow> error + UsagePattern" where
  "patternOf pair =
     (case pair of (skill', skillMetrics) \<Rightarrow>
        (let frequency' = length skillMetrics;
             averageDuration' =
               js_div (foldl (\<lambda>sum m. js_add sum (to_number (duration (outcome m)))) (Fin 0)
                         skillMetrics)
                 (Fin (real frequency'));
             successRate' =
               js_mul (js_div (Fin (real (length (filter (\<lambda>m. success (outcome m)) skillMetrics))))
                         (Fin (real frequency'))) (Fin 100)
         in case at_index skillMetrics 0 of
              None \<Rightarrow> Inl TypeError
            | Some first \<Rightarrow>
                (let hour = parseInt (at_index (split (CHR ''T'') (timestamp first)) 1);
                     timeOfDay' = getTimeOfDay hour
                 in Inr \<lparr>skill = skill', frequency = frequency',
                         pat_averageDuration = averageDuration',
                         pat_successRate = successRate', timeOfDay = timeOfDay'\<rparr>)))"

fun patterns_loop ::
  "(string \<times> UsageLog list) list \<Rightarrow> UsagePattern list \<Rightarrow> error + UsagePattern list" where
  "patterns_loop [] patterns = Inr patterns"
| "patterns_loop (pair # rest) patterns =
     (case patternOf pair of
        Inl e \<Rightarrow> Inl e
      | Inr p \<Rightarrow> patterns_loop rest (patterns @ [p]))"

text \<open>\<^verbatim>\<open>patterns.sort((a, b) => b.frequency - a.frequency)\<close>: a stable sort, the
  larger frequency first.\<close>

definition sort_by_frequency :: "UsagePattern list \<Rightarrow> UsagePattern list" where
  "sort_by_frequency patterns = sort_key (\<lambda>p. - int (frequency p)) patterns"

definition analyzePatterns :: "UsageLog list \<Rightarrow> error + UsagePattern list" where
  "analyzePatterns metrics =
     (let skills = groupBySkill metrics
      in case patterns_loop (Object_entries skills) [] of
           Inl e \<Rightarrow> Inl e
         | Inr patterns \<Rightarrow> Inr (sort_by_frequency patterns))"

subsection \<open>Benchmark Comparator\<close>

text \<open>
  \<^verbatim>\<open>improvements\<close> and \<^verbatim>\<open>percentImprovement\<close> have the same three properties,
  \<^verbatim>\<open>duration\<close>, \<^verbatim>\<open>successRate\<close> and \<^verbatim>\<open>tokensPerTask\<close>.
  \<^verbatim>\<open>this.metricsCalculator\<close> is the calculator above.
\<close>

record Deltas =
  d_duration :: jsnum
  d_successRate :: jsnum
  d_tokensPerTask :: jsnum

record BenchmarkComparison =
  baseline :: ProductivityMetrics
  current :: ProductivityMetrics
  improvements :: Deltas
  percentImprovement :: Deltas

definition compare ::
  "jsnum option \<Rightarrow> (string \<Rightarrow> jsnum) \<Rightarrow> UsageLog list \<Rightarrow> UsageLog list
     \<Rightarrow> error + BenchmarkComparison" where
  "compare scope parseDate baseline' current' =
     (case calculate scope parseDate baseline' of
        Inl e \<Rightarrow> Inl e
      | Inr baselineMetrics \<Rightarrow>
          (case calculate scope parseDate current' of
             Inl e \<Rightarrow> Inl e
           | Inr currentMetrics \<Rightarrow>
               Inr \<lparr>baseline = baselineMetrics,
                    current = currentMetrics,
                    improvements =
                      \<lparr>d_duration =
                         js_sub (averageDuration baselineMetrics) (averageDuration currentMetrics),
                       d_successRate =
                         js_sub (successRate currentMetrics) (successRate baselineMetrics),
                       d_tokensPerTask =
                         js_sub (tokensPerTask baselineMetrics) (tokensPerTask currentMetrics)\<rparr>,
                    percentImprovement =
                      \<lparr>d_duration =
                         js_mul (js_div (js_sub (averageDuration baselineMetrics)
                                           (averageDuration currentMetrics))
                                   (averageDuration baselineMetrics)) (Fin 100),
                       d_successRate =
                         js_sub (successRate currentMetrics) (successRate baselineMetrics),
                       d_tokensPerTask =
                         js_mul (js_div (js_sub (tokensPerTask baselineMetrics)
                                           (tokensPerTask currentMetrics))
                                   (tokensPerTask baselineMetrics)) (Fin 100)\<rparr>\<rparr>))"

subsection \<open>Report Generator\<close>

record TopSkill =
  top_skill :: string
  top_count :: nat

text \<open>
  An insight is one of the four template strings of \<open>generateInsights\<close>; the constructor
  says which one and carries the values the template prints (the number is printed with one
  decimal, the text around it is fixed):
  \<^item> \<open>LowSuccessRate r\<close>: "Low success rate: r%";
  \<^item> \<open>HighAverageDuration s\<close>: "High average duration: s s", \<open>s\<close> the average in seconds;
  \<^item> \<open>LowInvocationsPerHour n\<close>: "Low invocations per hour: n";
  \<^item> \<open>MostUsedSkill k c\<close>: "Most used skill: k (c times)".
\<close>

datatype insight =
  LowSuccessRate jsnum
| HighAverageDuration jsnum
| LowInvocationsPerHour jsnum
| MostUsedSkill string nat

record DailySummary =
  date :: "string option"
  ds_totalInvocations :: nat
  ds_skillInvocations :: nat
  ds_commandInvocations :: nat
  ds_ruleApplications :: nat
  ds_averageDuration :: jsnum
  ds_successRate :: jsnum
  topSkills :: "TopSkill list"
  insights :: "insight list"

text \<open>The body of the loop of \<open>getTopSkills\<close> on the entries of \<open>skillCounts\<close>:
  \<^verbatim>\<open>skillCounts.set(name, (skillCounts.get(name) || 0) + 1)\<close>.\<close>

fun bump_count :: "(string \<times> nat) list \<Rightarrow> string \<Rightarrow> (string \<times> nat) list" where
  "bump_count [] k = [(k, 0 + 1)]"
| "bump_count ((k', c) # counts) k =
     (if k' = k then (k', c + 1) # counts else (k', c) # bump_count counts k)"

definition skillCounts :: "UsageLog list \<Rightarrow> nat jsobject" where
  "skillCounts metrics =
     MapObject
       (foldl (\<lambda>counts m.
                 if type (invocation m) = ''skill'' then bump_count counts (name (invocation m))
                 else counts) [] metrics)"

definition getTopSkills :: "UsageLog list \<Rightarrow> nat \<Rightarrow> TopSkill list" where
  "getTopSkills metrics topN =
     map (\<lambda>(skill', count'). \<lparr>top_skill = skill', top_count = count'\<rparr>)
       (take topN (sort_key (\<lambda>a. - int (snd a)) (Map_entries (skillCounts metrics))))"

definition generateInsights :: "ProductivityMetrics \<Rightarrow> TopSkill list \<Rightarrow> error + insight list" where
  "generateInsights metrics topSkills' =
     (let insights0 = [];
          insights1 =
            (if js_lt (successRate metrics) (Fin 80)
             then insights0 @ [LowSuccessRate (successRate metrics)] else insights0);
          insights2 =
            (if js_gt (averageDuration metrics) (Fin 30000)
             then insights1 @ [HighAverageDuration (js_div (averageDuration metrics) (Fin 1000))]
             else insights1);
          insights3 =
            (if js_lt (invocationsPerHour metrics) (Fin 5)
             then insights2 @ [LowInvocationsPerHour (invocationsPerHour metrics)]
             else insights2)
      in case at_index topSkills' 0 of
           None \<Rightarrow> Inl TypeError
         | Some topSkill \<Rightarrow>
             Inr (insights3 @ [MostUsedSkill (top_skill topSkill) (top_count topSkill)]))"

text \<open>
  \<open>generateDailySummary\<close>. \<open>startOfDay\<close> is the time value of
  \<^verbatim>\<open>new Date(date.getFullYear(), date.getMonth(), date.getDate())\<close>, local midnight of
  the day asked for (\<open>NaN\<close> when \<^verbatim>\<open>date\<close> is invalid), and \<open>toISOString\<close> is the
  built-in of that name on a valid time value. \<^verbatim>\<open>this.logger\<close> and
  \<^verbatim>\<open>this.metricsCalculator\<close> are the store and the calculator above.
\<close>

definition generateDailySummary ::
  "jsnum option \<Rightarrow> (string \<Rightarrow> jsnum) \<Rightarrow> (real \<Rightarrow> string) \<Rightarrow> filesystem \<Rightarrow> string \<Rightarrow> jsnum
     \<Rightarrow> error + DailySummary" where
  "generateDailySummary scope parseDate toISOString fs now startOfDay =
     (let endOfDay =
            Date_of_number (js_sub (js_add startOfDay (Fin (24 * 60 * 60 * 1000))) (Fin 1))
      in case query parseDate fs now
                \<lparr>f_agent = None, f_startTime = Some startOfDay, f_endTime = Some endOfDay,
                 f_category = None\<rparr> of
           Inl e \<Rightarrow> Inl e
         | Inr metrics \<Rightarrow>
             (case calculate scope parseDate metrics of
                Inl e \<Rightarrow> Inl e
              | Inr summary \<Rightarrow>
                  (let topSkills' = getTopSkills metrics 5
                   in case startOfDay of
                        Fin t \<Rightarrow>
                          (case generateInsights summary topSkills' of
                             Inl e \<Rightarrow> Inl e
                           | Inr insights' \<Rightarrow>
                               Inr \<lparr>date = at_index (split (CHR ''T'') (toISOString t)) 0,
                                    ds_totalInvocations = totalInvocations summary,
                                    ds_skillInvocations = skillInvocations summary,
                                    ds_commandInvocations = commandInvocations summary,
                                    ds_ruleApplications = ruleApplications summary,
                                    ds_averageDuration = averageDuration summary,
                                    ds_successRate = successRate summary,
                                    topSkills = topSkills',
                                    insights = insights'\<rparr>)
                      | _ \<Rightarrow> Inl RangeError)))"

subsection \<open>Sample data\<close>

text \<open>
  The values of \<^verbatim>\<open>new Date(string)\<close> on three timestamps of 12 January 2025, as a
  date parser for concrete runs, and an entry as the usage tracker writes it: a finite
  duration, the tokens used when they are known, no cost, no files and no metadata.
\<close>

definition sample_parseDate :: "string \<Rightarrow> jsnum" where
  "sample_parseDate s =
     (if s = ''2025-01-12T10:00:00.000Z'' then Fin 1736676000000
      else if s = ''2025-01-12T11:00:00.000Z'' then Fin 1736679600000
      else if s = ''2025-01-12T18:30:00.000Z'' then Fin 1736706600000
      else NaN)"

definition sample_entry ::
  "string \<Rightarrow> string \<Rightarrow> string \<Rightarrow> string \<Rightarrow> bool \<Rightarrow> real \<Rightarrow> real option \<Rightarrow> UsageLog" where
  "sample_entry ts ag ty nm ok dur tok =
     \<lparr>ident = [], timestamp = ts, agent = ag,
      invocation = \<lparr>type = ty, name = nm, category = ''other''\<rparr>,
      ctx = \<lparr>task = ''Implement feature'', project = ''/work'', files = None\<rparr>,
      outcome =
        \<lparr>success = ok, duration = Number (Fin dur),
         tokensUsed = (case tok of None \<Rightarrow> Undefined | Some t \<Rightarrow> Number (Fin t)),
         cost = Undefined\<rparr>,
      entry_metadata = None\<rparr>"

text \<open>Two runs of the skill \<open>build\<close>, the second one failing, and a command.\<close>

definition build_ok :: UsageLog where
  "build_ok =
     sample_entry ''2025-01-12T10:00:00.000Z'' ''sisyphus'' ''skill'' ''build'' True 1000
       (Some 1500)"

definition build_failed :: UsageLog where
  "build_failed =
     sample_entry ''2025-01-12T11:00:00.000Z'' ''sisyphus'' ''skill'' ''build'' False 3000 None"

definition idle_command :: UsageLog where
  "idle_command =
     sample_entry ''2025-01-12T18:30:00.000Z'' ''oracle'' ''command'' ''run-build'' True 0 None"

text \<open>An entry whose timestamp is not a date, and a writable file system whose file holds
  the given entries.\<close>

definition undated_entry :: UsageLog where
  "undated_entry = sample_entry ''yesterday'' ''oracle'' ''rule'' ''git-workflow'' True 10 None"

definition sample_fs :: "UsageLog list \<Rightarrow> filesystem" where
  "sample_fs es =
     \<lparr>disk = Stored \<lparr>entries = es,
                      metadata = \<lparr>version = ''1.0'', lastUpdated = ''2025-01-12T18:30:00.000Z''\<rparr>\<rparr>,
      writable = True\<rparr>"

text \<open>
  A run of \<open>build\<close> in the evening, a run whose duration is near the largest double,
  and a failed run that carries the \<^verbatim>\<open>Error\<close> it met.
\<close>

definition build_evening :: UsageLog where
  "build_evening =
     sample_entry ''2025-01-12T18:30:00.000Z'' ''sisyphus'' ''skill'' ''build'' True 2000 None"

definition huge_run :: UsageLog where
  "huge_run =
     sample_entry ''2025-01-12T10:00:00.000Z'' ''sisyphus'' ''skill'' ''build'' True (10 ^ 308)
       None"

definition failed_run :: UsageLog where
  "failed_run =
     (sample_entry ''2025-01-12T11:00:00.000Z'' ''sisyphus'' ''skill'' ''build'' False 3000 None)
       \<lparr>entry_metadata :=
          Some \<lparr>model = None, sessionId = None, toolCalls = None,
                errors = Some [ErrorObject ''build failed'' []]\<rparr>\<rparr>"

section \<open>Properties\<close>

subsection \<open>Finite results\<close>

lemma threshold_large: "(10::real) ^ 20 < 2 ^ 1024 - 2 ^ 970"
  by simp

lemma fin_Fin: "\<bar>x\<bar> \<le> 10 ^ 20 \<Longrightarrow> fin x = Fin x"
  using threshold_large by (simp add: fin_def)

lemma fin_0 [simp]: "fin 0 = Fin 0"
  by (simp add: fin_def)

lemma js_sub_self: "js_sub x x = (case x of Fin a \<Rightarrow> Fin 0 | _ \<Rightarrow> NaN)"
  by (cases x) (simp_all add: js_sub_def)

lemma rate_finite:
  assumes "k \<le> n" and "0 < n"
  shows "js_mul (js_div (Fin (real k)) (Fin (real n))) (Fin 100) = Fin (real k / real n * 100)"
proof -
  define q where "q = real k / real n"
  have q: "0 \<le> q" "q \<le> 1"
    using assms by (simp_all add: q_def)
  then have "\<bar>q\<bar> \<le> 10 ^ 20" "\<bar>q * 100\<bar> \<le> 10 ^ 20"
    by (simp_all add: abs_if)
  then have "js_mul (fin q) (Fin 100) = Fin (q * 100)"
    by (simp add: fin_Fin)
  then show ?thesis
    using assms by (simp add: q_def)
qed

subsection \<open>What \<open>calculate\<close> returns\<close>

lemma calculate_None: "calculate None parseDate metrics = Inl ReferenceError"
  by (simp add: calculate_def)

lemma calculate_Some_returns: "\<exists>r. calculate (Some v) parseDate metrics = Inr r"
  by (simp add: calculate_def Let_def)

lemma calculate_returns:
  "calculate scope parseDate metrics = Inr r \<Longrightarrow> \<exists>v. scope = Some v"
  by (cases scope) (simp_all add: calculate_def)

lemma calculate_counts:
  assumes "calculate scope parseDate metrics = Inr r"
  shows "totalInvocations r = length metrics"
    and "skillInvocations r = length (filter (\<lambda>m. type (invocation m) = ''skill'') metrics)"
    and "commandInvocations r = length (filter (\<lambda>m. type (invocation m) = ''command'') metrics)"
    and "ruleApplications r = length (filter (\<lambda>m. type (invocation m) = ''rule'') metrics)"
  using assms by (cases scope; auto simp: calculate_def Let_def)+

lemma calculate_rates:
  assumes "calculate scope parseDate metrics = Inr r"
  shows "averageDuration r =
           js_div (foldl (\<lambda>sum m. js_add sum (to_number (duration (outcome m)))) (Fin 0) metrics)
             (Fin (real (length metrics)))"
    and "successRate r =
           js_mul (js_div (Fin (real (length (filter (\<lambda>m. success (outcome m)) metrics))))
                     (Fin (real (length metrics)))) (Fin 100)"
    and "failureRate r =
           js_mul (js_div (Fin (real (length metrics
                                       - length (filter (\<lambda>m. success (outcome m)) metrics))))
                     (Fin (real (length metrics)))) (Fin 100)"
    and "invocationsPerHour r = calculateInvocationsPerHour parseDate metrics"
    and "\<exists>v. scope = Some v \<and> tokensPerTask r = js_div v (Fin (real (length metrics)))"
  using assms by (cases scope; auto simp: calculate_def Let_def)+

lemma span_zero_rate:
  assumes "metrics \<noteq> []" and "tr_duration (getTimeRange parseDate metrics) = Fin 0"
  shows "calculateInvocationsPerHour parseDate metrics = PInf"
  using assms by (simp add: calculateInvocationsPerHour_def Let_def)

lemma empty_rate: "calculateInvocationsPerHour parseDate [] = NaN"
  by (simp add: calculateInvocationsPerHour_def getTimeRange_def Math_min_def Math_max_def
      Date_of_number_def js_sub_def Let_def)

lemma three_way_count:
  assumes "\<forall>x \<in> set xs. f x = a \<or> f x = b \<or> f x = c" and "a \<noteq> b" and "a \<noteq> c" and "b \<noteq> c"
  shows "length (filter (\<lambda>x. f x = a) xs) + length (filter (\<lambda>x. f x = b) xs)
           + length (filter (\<lambda>x. f x = c) xs) = length xs"
  using assms by (induction xs) auto

text \<open>
  Claim C1, as the code has it. \<open>calculate\<close> has no error of its own for an aggregate
  that cannot be computed: it never signals \<open>ComputationUndefined\<close>. Whenever it returns a
  result, on the empty sequence the average duration, the success rate, the failure rate and
  the invocations per hour are \<open>NaN\<close> (each is \<open>0 / 0\<close>), and on a non-empty sequence
  whose timestamp span is zero the invocations per hour are \<open>+Infinity\<close>.
\<close>

theorem calculate_undefined_aggregates:
  "calculate scope parseDate metrics \<noteq> Inl ComputationUndefined
   \<and> (\<forall>r. calculate scope parseDate [] = Inr r \<longrightarrow>
         averageDuration r = NaN \<and> successRate r = NaN \<and> failureRate r = NaN
         \<and> invocationsPerHour r = NaN)
   \<and> (\<forall>r. metrics \<noteq> [] \<and> tr_duration (getTimeRange parseDate metrics) = Fin 0
            \<and> calculate scope parseDate metrics = Inr r \<longrightarrow>
         invocationsPerHour r = PInf)"
proof -
  have never: "calculate scope parseDate metrics \<noteq> Inl ComputationUndefined"
    by (cases scope) (simp_all add: calculate_def Let_def)
  have empty: "averageDuration r = NaN \<and> successRate r = NaN \<and> failureRate r = NaN
         \<and> invocationsPerHour r = NaN" if r: "calculate scope parseDate [] = Inr r" for r
    by (simp add: calculate_rates [OF r] empty_rate)
  have span: "invocationsPerHour r = PInf"
    if "metrics \<noteq> []" and "tr_duration (getTimeRange parseDate metrics) = Fin 0"
      and r: "calculate scope parseDate metrics = Inr r" for r
    using that by (simp add: calculate_rates [OF r] span_zero_rate)
  from never empty span show ?thesis by blast
qed

theorem calculate_undefined_aggregates_witness:
  "calculate (Some (Fin 1500)) sample_parseDate [build_ok] \<noteq> Inl ComputationUndefined
   \<and> (\<exists>r. calculate (Some (Fin 1500)) sample_parseDate [] = Inr r \<and> averageDuration r = NaN
          \<and> successRate r = NaN \<and> failureRate r = NaN \<and> invocationsPerHour r = NaN)
   \<and> (\<exists>r. [build_ok] \<noteq> [] \<and> tr_duration (getTimeRange sample_parseDate [build_ok]) = Fin 0
          \<and> calculate (Some (Fin 1500)) sample_parseDate [build_ok] = Inr r
          \<and> invocationsPerHour r = PInf)"
proof -
  obtain r0 where r0: "calculate (Some (Fin 1500)) sample_parseDate [] = Inr r0"
    using calculate_Some_returns by blast
  obtain r1 where r1: "calculate (Some (Fin 1500)) sample_parseDate [build_ok] = Inr r1"
    using calculate_Some_returns by blast
  have span: "tr_duration (getTimeRange sample_parseDate [build_ok]) = Fin 0"
    by (simp add: getTimeRange_def Math_min_def Math_max_def js_min_def js_max_def
        Date_of_number_def js_sub_def build_ok_def sample_entry_def sample_parseDate_def Let_def)
  show ?thesis
    using calculate_undefined_aggregates [of "Some (Fin 1500)" sample_parseDate "[build_ok]"]
      r0 r1 span
    by auto
qed

text \<open>
  On the empty sequence \<open>calculate\<close> does not signal \<open>ComputationUndefined\<close>: with no
  binding of \<^verbatim>\<open>totalTokensUsed\<close> in scope it throws a \<open>ReferenceError\<close>, and with
  one it returns metrics whose ratios are \<open>NaN\<close>.
\<close>

theorem calculate_empty_counterexample:
  "calculate None sample_parseDate [] = Inl ReferenceError
   \<and> calculate (Some (Fin 0)) sample_parseDate [] =
       Inr \<lparr>totalInvocations = 0, skillInvocations = 0, commandInvocations = 0,
            ruleApplications = 0, averageDuration = NaN, totalDuration = Fin 0,
            successRate = NaN, failureRate = NaN, totalTokensUsed = Fin 0, totalCost = Fin 0,
            invocationsPerHour = NaN, tokensPerTask = NaN\<rparr>"
  by (simp add: calculate_def empty_rate Let_def)

text \<open>
  Claim C10. When every entry's invocation type is \<open>skill\<close>, \<open>command\<close> or
  \<open>rule\<close>, the three counts of the result add up to its total. \<open>calculate\<close> returns a
  result in every scope that binds \<^verbatim>\<open>totalTokensUsed\<close>; the counts are computed before
  that identifier is read.
\<close>

theorem calculate_type_counts_partition:
  assumes "\<forall>m \<in> set metrics. type (invocation m) \<in> {''skill'', ''command'', ''rule''}"
  shows "(\<forall>v. \<exists>r. calculate (Some v) parseDate metrics = Inr r)
         \<and> (\<forall>r. calculate scope parseDate metrics = Inr r \<longrightarrow>
               skillInvocations r + commandInvocations r + ruleApplications r
                 = totalInvocations r)"
proof -
  have "length (filter (\<lambda>m. type (invocation m) = ''skill'') metrics)
          + length (filter (\<lambda>m. type (invocation m) = ''command'') metrics)
          + length (filter (\<lambda>m. type (invocation m) = ''rule'') metrics) = length metrics"
    using assms by (intro three_way_count) auto
  then have "skillInvocations r + commandInvocations r + ruleApplications r = totalInvocations r"
    if r: "calculate scope parseDate metrics = Inr r" for r
    by (simp add: calculate_counts [OF r])
  then show ?thesis
    using calculate_Some_returns by blast
qed

theorem calculate_type_counts_partition_witness:
  "type (invocation build_ok) = ''skill'' \<and> type (invocation idle_command) = ''command''
   \<and> (\<exists>r. calculate (Some (Fin 1500)) sample_parseDate [build_ok, idle_command] = Inr r
          \<and> skillInvocations r + commandInvocations r + ruleApplications r
              = totalInvocations r \<and> totalInvocations r = 2)"
proof -
  have types: "\<forall>m \<in> set [build_ok, idle_command].
      type (invocation m) \<in> {''skill'', ''command'', ''rule''}"
    by (simp add: build_ok_def idle_command_def sample_entry_def)
  obtain r where r: "calculate (Some (Fin 1500)) sample_parseDate [build_ok, idle_command] = Inr r"
    using calculate_Some_returns by blast
  have kinds: "type (invocation build_ok) = ''skill''"
    "type (invocation idle_command) = ''command''"
    by (simp_all add: build_ok_def idle_command_def sample_entry_def)
  have "totalInvocations r = 2"
    using calculate_counts(1) [OF r] by simp
  with calculate_type_counts_partition [OF types, of sample_parseDate "Some (Fin 1500)"] r kinds
  show ?thesis by auto
qed

text \<open>
  Claim C6, against the code. The property \<open>tokensPerTask\<close> is not computed from the
  entries: it is \<^verbatim>\<open>totalTokensUsed / total\<close> with \<^verbatim>\<open>totalTokensUsed\<close> read from
  the enclosing scope. With no binding in scope \<open>calculate\<close> throws a
  \<open>ReferenceError\<close> on every input; with a binding \<open>v\<close> the property is
  \<open>v / total\<close>, whatever the entries hold: for the one entry \<open>build_ok\<close>, which used
  1500 tokens, and a binding to \<open>0\<close>, the property \<open>totalTokensUsed\<close> is 1500 and
  \<open>tokensPerTask\<close> is 0.
\<close>

theorem tokensPerTask_reads_scope:
  "calculate None parseDate metrics = Inl ReferenceError
   \<and> map_sum id tokensPerTask (calculate (Some v) parseDate metrics)
       = Inr (js_div v (Fin (real (length metrics))))
   \<and> map_sum id totalTokensUsed (calculate (Some (Fin 0)) sample_parseDate [build_ok])
       = Inr (Fin 1500)
   \<and> map_sum id tokensPerTask (calculate (Some (Fin 0)) sample_parseDate [build_ok])
       = Inr (Fin 0)"
  by (simp add: calculate_def Let_def build_ok_def sample_entry_def fin_Fin)

subsection \<open>Comparing a sequence with itself\<close>

lemma self_percent:
  "js_mul (js_div (js_sub x x) x) (Fin 100)
     = (case x of Fin a \<Rightarrow> if a = 0 then NaN else Fin 0 | _ \<Rightarrow> NaN)"
  by (cases x) (simp_all add: js_sub_def)

lemma compare_fields:
  assumes "compare scope parseDate old new = Inr c"
  shows "calculate scope parseDate old = Inr (baseline c)"
    and "calculate scope parseDate new = Inr (current c)"
    and "improvements c =
           \<lparr>d_duration = js_sub (averageDuration (baseline c)) (averageDuration (current c)),
            d_successRate = js_sub (successRate (current c)) (successRate (baseline c)),
            d_tokensPerTask = js_sub (tokensPerTask (baseline c)) (tokensPerTask (current c))\<rparr>"
    and "percentImprovement c =
           \<lparr>d_duration =
              js_mul (js_div (js_sub (averageDuration (baseline c)) (averageDuration (current c)))
                        (averageDuration (baseline c))) (Fin 100),
            d_successRate = js_sub (successRate (current c)) (successRate (baseline c)),
            d_tokensPerTask =
              js_mul (js_div (js_sub (tokensPerTask (baseline c)) (tokensPerTask (current c)))
                        (tokensPerTask (baseline c))) (Fin 100)\<rparr>"
  using assms by (auto simp: compare_def split: sum.splits)

text \<open>
  Claim C5, as the code has it. For a non-empty sequence, whenever \<open>compare\<close> of the
  sequence with itself returns: the success-rate improvement and percentage are zero; the
  duration improvement is zero when the average duration is finite and \<open>NaN\<close> when it
  is not (\<open>Infinity - Infinity\<close>); the duration percentage is zero when the average
  duration is finite and not zero, and \<open>NaN\<close> otherwise (\<open>0 / 0\<close> for an average of
  zero); and the same holds of \<open>tokensPerTask\<close>.
\<close>

theorem compare_with_itself:
  assumes "metrics \<noteq> []" and "compare scope parseDate metrics metrics = Inr c"
  shows "d_successRate (improvements c) = Fin 0
         \<and> d_successRate (percentImprovement c) = Fin 0
         \<and> d_duration (improvements c)
             = (case averageDuration (baseline c) of Fin a \<Rightarrow> Fin 0 | _ \<Rightarrow> NaN)
         \<and> d_duration (percentImprovement c)
             = (case averageDuration (baseline c) of
                  Fin a \<Rightarrow> if a = 0 then NaN else Fin 0
                | _ \<Rightarrow> NaN)
         \<and> d_tokensPerTask (improvements c)
             = (case tokensPerTask (baseline c) of Fin t \<Rightarrow> Fin 0 | _ \<Rightarrow> NaN)
         \<and> d_tokensPerTask (percentImprovement c)
             = (case tokensPerTask (baseline c) of
                  Fin t \<Rightarrow> if t = 0 then NaN else Fin 0
                | _ \<Rightarrow> NaN)"
proof -
  note c = compare_fields [OF assms(2)]
  have same: "current c = baseline c"
    using c(1,2) by simp
  have "length (filter (\<lambda>m. success (outcome m)) metrics) \<le> length metrics"
    and "0 < length metrics"
    using assms(1) by simp_all
  then obtain s where s: "successRate (baseline c) = Fin s"
    using rate_finite by (simp add: calculate_rates(2) [OF c(1)])
  have imp: "improvements c =
      \<lparr>d_duration = js_sub (averageDuration (baseline c)) (averageDuration (baseline c)),
       d_successRate = Fin 0,
       d_tokensPerTask = js_sub (tokensPerTask (baseline c)) (tokensPerTask (baseline c))\<rparr>"
    by (simp add: c(3) same s js_sub_def)
  have pct: "percentImprovement c =
      \<lparr>d_duration =
         js_mul (js_div (js_sub (averageDuration (baseline c)) (averageDuration (baseline c)))
                   (averageDuration (baseline c))) (Fin 100),
       d_successRate = Fin 0,
       d_tokensPerTask =
         js_mul (js_div (js_sub (tokensPerTask (baseline c)) (tokensPerTask (baseline c)))
                   (tokensPerTask (baseline c))) (Fin 100)\<rparr>"
    by (simp add: c(4) same s js_sub_def)
  show ?thesis
    by (simp only: imp pct self_percent) (simp add: js_sub_self)
qed

theorem compare_with_itself_witness:
  "[build_ok, build_failed] \<noteq> []
   \<and> (\<exists>c. compare (Some (Fin 1500)) sample_parseDate [build_ok, build_failed]
              [build_ok, build_failed] = Inr c
          \<and> averageDuration (baseline c) = Fin 2000 \<and> tokensPerTask (baseline c) = Fin 750
          \<and> improvements c = \<lparr>d_duration = Fin 0, d_successRate = Fin 0, d_tokensPerTask = Fin 0\<rparr>
          \<and> percentImprovement c
              = \<lparr>d_duration = Fin 0, d_successRate = Fin 0, d_tokensPerTask = Fin 0\<rparr>)"
proof -
  obtain r where r: "calculate (Some (Fin 1500)) sample_parseDate [build_ok, build_failed] = Inr r"
    using calculate_Some_returns by blast
  then obtain c where c: "compare (Some (Fin 1500)) sample_parseDate [build_ok, build_failed]
              [build_ok, build_failed] = Inr c"
    by (simp add: compare_def)
  have b: "calculate (Some (Fin 1500)) sample_parseDate [build_ok, build_failed] = Inr (baseline c)"
    by (rule compare_fields(1) [OF c])
  have avg: "averageDuration (baseline c) = Fin 2000"
    by (simp add: calculate_rates(1) [OF b] build_ok_def build_failed_def sample_entry_def fin_Fin)
  have tok: "tokensPerTask (baseline c) = Fin 750"
    using calculate_rates(5) [OF b] by (simp add: fin_Fin)
  have ne: "[build_ok, build_failed] \<noteq> []" by simp
  show ?thesis
    using compare_with_itself [OF ne c] c avg tok
    by (cases "improvements c"; cases "percentImprovement c") auto
qed

text \<open>
  The one entry \<open>idle_command\<close> has duration 0, as the entries have that the usage
  tracker writes before an execution: compared with itself, the duration percentage is
  \<open>NaN\<close>, not zero (and with \<^verbatim>\<open>totalTokensUsed\<close> unbound the comparison throws).
  Two runs of duration \<open>10^308\<close> add up to \<open>Infinity\<close>: compared with themselves,
  the duration improvement is \<open>NaN\<close>.
\<close>

theorem compare_with_itself_counterexample:
  "compare None sample_parseDate [idle_command] [idle_command] = Inl ReferenceError
   \<and> map_sum id percentImprovement
         (compare (Some (Fin 1500)) sample_parseDate [idle_command] [idle_command])
       = Inr \<lparr>d_duration = NaN, d_successRate = Fin 0, d_tokensPerTask = Fin 0\<rparr>
   \<and> map_sum id improvements
         (compare (Some (Fin 1500)) sample_parseDate [huge_run, huge_run] [huge_run, huge_run])
       = Inr \<lparr>d_duration = NaN, d_successRate = Fin 0, d_tokensPerTask = Fin 0\<rparr>"
  by (simp add: compare_def calculate_def idle_command_def huge_run_def sample_entry_def Let_def
      js_sub_def fin_def signed_inf_def)

subsection \<open>The store\<close>

lemma json_number_fixed: "(json_number v = v) = json_safe_number v"
  by (cases v rule: json_number.cases) simp_all

lemma json_error_fixed: "(json_error e = e) = plain_error e"
  by (cases e) simp_all

lemma json_errors_fixed: "(map json_error es = es) = list_all plain_error es"
  by (induction es) (simp_all add: json_error_fixed)

lemma json_outcome_fixed:
  "(json_outcome out = out)
     = (json_safe_number (duration out) \<and> json_safe_number (tokensUsed out)
        \<and> json_safe_number (cost out))"
  by (cases out) (auto simp: json_outcome_def json_number_fixed)

lemma json_metadata_fixed:
  "(json_metadata md = md) = (case errors md of None \<Rightarrow> True | Some es \<Rightarrow> list_all plain_error es)"
  by (cases md; cases "errors md") (auto simp: json_metadata_def json_errors_fixed)

lemma json_entry_fixed: "(json_entry entry = entry) = json_safe entry"
proof (cases entry)
  case (fields i t a inv c out md)
  then show ?thesis
    by (cases md) (auto simp: json_entry_def json_safe_def json_outcome_fixed json_metadata_fixed)
qed

lemma json_entry_ident: "ident (json_entry entry) = ident entry"
  by (simp add: json_entry_def)

text \<open>
  Claim C2, as the code has it. When the file can be loaded and written, \<open>log\<close>
  succeeds, and a \<open>load\<close> right after it returns the entries that were there followed
  by the appended entry as JSON keeps it, with the \<open>ident\<close> and \<open>timestamp\<close> the
  store assigned. That last element is the entry given, except for those two fields,
  exactly when the entry is one that JSON represents as it is. The store does not compare
  identifiers: the ones returned are pairwise distinct exactly when the ones that were
  there are pairwise distinct and the generated one is not among them.
\<close>

theorem log_then_load:
  assumes "load fs now0 = Inr old" and "writable fs"
  shows "\<exists>fs' store. log fs newId now0 now1 now2 entry = Inr fs'
           \<and> load fs' now = Inr store
           \<and> entries store
               = map json_entry (entries old)
                 @ [json_entry (entry\<lparr>ident := newId, timestamp := now1\<rparr>)]
           \<and> last (entries store) = json_entry (entry\<lparr>ident := newId, timestamp := now1\<rparr>)
           \<and> (last (entries store) = entry\<lparr>ident := newId, timestamp := now1\<rparr>)
               = json_safe entry
           \<and> distinct (map ident (entries store))
               = (distinct (map ident (entries old)) \<and> newId \<notin> set (map ident (entries old)))"
proof -
  let ?entry = "entry\<lparr>ident := newId, timestamp := now1\<rparr>"
  let ?store = "json_store (old\<lparr>entries := entries old @ [?entry],
                                metadata := (metadata old)\<lparr>lastUpdated := now2\<rparr>\<rparr>)"
  have logged: "log fs newId now0 now1 now2 entry = Inr (fs\<lparr>disk := Stored ?store\<rparr>)"
    using assms by (simp add: log_def save_def Let_def)
  have loaded: "load (fs\<lparr>disk := Stored ?store\<rparr>) now = Inr ?store"
    by (simp add: load_def)
  have all: "entries ?store = map json_entry (entries old) @ [json_entry ?entry]"
    by (simp add: json_store_def)
  have safe: "(json_entry ?entry = ?entry) = json_safe entry"
    by (simp add: json_entry_fixed) (simp add: json_safe_def)
  have ids: "map ident (entries ?store) = map ident (entries old) @ [newId]"
    by (simp add: all json_entry_ident comp_def)
  have "distinct (map ident (entries ?store))
          = (distinct (map ident (entries old)) \<and> newId \<notin> set (map ident (entries old)))"
    unfolding ids by auto
  with logged loaded all safe show ?thesis
    by auto
qed

theorem log_then_load_witness:
  "load (sample_fs [build_ok\<lparr>ident := ''a1''\<rparr>]) [] =
     Inr \<lparr>entries = [build_ok\<lparr>ident := ''a1''\<rparr>],
          metadata = \<lparr>version = ''1.0'', lastUpdated = ''2025-01-12T18:30:00.000Z''\<rparr>\<rparr>
   \<and> writable (sample_fs [build_ok\<lparr>ident := ''a1''\<rparr>])
   \<and> json_safe idle_command
   \<and> (\<exists>fs' store.
         log (sample_fs [build_ok\<lparr>ident := ''a1''\<rparr>]) ''b2'' [] ''2025-01-12T18:30:00.000Z''
           ''2025-01-12T18:30:00.000Z'' idle_command = Inr fs'
         \<and> load fs' [] = Inr store
         \<and> last (entries store)
             = idle_command\<lparr>ident := ''b2'', timestamp := ''2025-01-12T18:30:00.000Z''\<rparr>
         \<and> map ident (entries store) = [''a1'', ''b2'']
         \<and> distinct (map ident (entries store)))"
proof -
  let ?fs = "sample_fs [build_ok\<lparr>ident := ''a1''\<rparr>]"
  let ?old = "\<lparr>entries = [build_ok\<lparr>ident := ''a1''\<rparr>],
          metadata = \<lparr>version = ''1.0'', lastUpdated = ''2025-01-12T18:30:00.000Z''\<rparr>\<rparr>"
  have l: "load ?fs [] = Inr ?old"
    by (simp add: load_def sample_fs_def)
  have w: "writable ?fs"
    by (simp add: sample_fs_def)
  have s: "json_safe idle_command"
    by (simp add: json_safe_def idle_command_def sample_entry_def)
  have i: "map ident (map json_entry (entries ?old)) = [''a1'']"
    by (simp add: json_entry_ident)
  show ?thesis
    using log_then_load [OF l w, of "''b2''" "''2025-01-12T18:30:00.000Z''"
        "''2025-01-12T18:30:00.000Z''" idle_command "[]"] l w s i
    by (auto simp: json_entry_ident)
qed

text \<open>
  The failed run carries an \<^verbatim>\<open>Error\<close>: what is loaded after appending it carries
  an empty object instead. Appending to a file that holds the identifier \<open>a1\<close> twice
  returns it twice.
\<close>

theorem log_then_load_counterexample:
  "(case log (sample_fs []) ''b2'' [] ''2025-01-12T11:00:00.000Z'' ''2025-01-12T11:00:00.000Z''
           failed_run of
      Inl e \<Rightarrow> Inl e
    | Inr fs' \<Rightarrow> map_sum id (\<lambda>store. map entry_metadata (entries store)) (load fs' []))
     = Inr [Some \<lparr>model = None, sessionId = None, toolCalls = None,
                  errors = Some [JsonObject []]\<rparr>]
   \<and> entry_metadata failed_run
       = Some \<lparr>model = None, sessionId = None, toolCalls = None,
               errors = Some [ErrorObject ''build failed'' []]\<rparr>
   \<and> (case log (sample_fs [build_ok\<lparr>ident := ''a1''\<rparr>, build_failed\<lparr>ident := ''a1''\<rparr>])
           ''b2'' [] ''2025-01-12T18:30:00.000Z'' ''2025-01-12T18:30:00.000Z'' idle_command of
        Inl e \<Rightarrow> Inl e
      | Inr fs' \<Rightarrow> map_sum id (\<lambda>store. map ident (entries store)) (load fs' []))
       = Inr [''a1'', ''a1'', ''b2'']"
  by (simp add: log_def save_def load_def sample_fs_def json_store_def json_entry_def
      json_metadata_def failed_run_def sample_entry_def Let_def)

subsection \<open>Queries\<close>

lemma not_js_lt_iff: "(\<not> js_lt a b) = (js_ge a b \<or> a = NaN \<or> b = NaN)"
  by (cases a; cases b) (auto simp: js_ge_def)

lemma agent_part:
  "(\<not> (truthy x \<and> Some a \<noteq> x)) = (case x of None \<Rightarrow> True | Some s \<Rightarrow> s = [] \<or> a = s)"
  by (cases x) (auto simp: truthy_def)

lemma start_part:
  "(\<not> (case t of None \<Rightarrow> False | Some s \<Rightarrow> js_lt x s))
     = (case t of None \<Rightarrow> True | Some s \<Rightarrow> js_ge x s \<or> x = NaN \<or> s = NaN)"
  by (cases t) (simp_all add: not_js_lt_iff)

lemma end_part:
  "(\<not> (case t of None \<Rightarrow> False | Some s \<Rightarrow> js_gt x s))
     = (case t of None \<Rightarrow> True | Some s \<Rightarrow> js_ge s x \<or> x = NaN \<or> s = NaN)"
  by (cases t) (auto simp: js_gt_def not_js_lt_iff)

lemma matches_iff: "matches parseDate entry filters = satisfies_filters parseDate filters entry"
proof -
  have "matches parseDate entry filters =
          ((\<not> (truthy (f_agent filters) \<and> Some (agent entry) \<noteq> f_agent filters))
           \<and> (\<not> (truthy (f_category filters)
                  \<and> Some (category (invocation entry)) \<noteq> f_category filters))
           \<and> (\<not> (case f_startTime filters of
                    None \<Rightarrow> False
                  | Some s \<Rightarrow> js_lt (parseDate (timestamp entry)) s))
           \<and> (\<not> (case f_endTime filters of
                    None \<Rightarrow> False
                  | Some s \<Rightarrow> js_gt (parseDate (timestamp entry)) s)))"
    unfolding matches_def by (simp only: if_True if_False split: if_splits) blast
  then show ?thesis
    unfolding satisfies_filters_def agent_part start_part end_part .
qed

text \<open>
  Claim C3, as the code has it. On a store that loads, \<open>query\<close> with no filter returns
  every entry in order; with filters it returns exactly the entries that satisfy them all,
  a subsequence in the original order, where an empty string counts as no agent or category
  filter and an invalid date passes the time bounds; it returns the empty sequence, not an
  error, when no entry does; and querying its own result with the same filters returns
  that result.
\<close>

theorem query_is_filter:
  assumes "load fs now = Inr store"
  shows "query parseDate fs now
           \<lparr>f_agent = None, f_startTime = None, f_endTime = None, f_category = None\<rparr>
           = Inr (entries store)
         \<and> query parseDate fs now filters
             = Inr (filter (satisfies_filters parseDate filters) (entries store))
         \<and> subseq (filter (satisfies_filters parseDate filters) (entries store)) (entries store)
         \<and> ((\<forall>entry \<in> set (entries store). \<not> satisfies_filters parseDate filters entry)
               \<longrightarrow> query parseDate fs now filters = Inr [])
         \<and> query parseDate
               (fs\<lparr>disk := Stored (store\<lparr>entries :=
                  filter (satisfies_filters parseDate filters) (entries store)\<rparr>)\<rparr>) now' filters
             = Inr (filter (satisfies_filters parseDate filters) (entries store))"
proof -
  have all: "query parseDate fs now
           \<lparr>f_agent = None, f_startTime = None, f_endTime = None, f_category = None\<rparr>
           = Inr (entries store)"
    using assms by (simp add: query_def matches_def truthy_def)
  have some: "query parseDate fs now filters
             = Inr (filter (satisfies_filters parseDate filters) (entries store))"
    using assms by (simp add: query_def matches_iff)
  have none: "query parseDate fs now filters = Inr []"
    if "\<forall>entry \<in> set (entries store). \<not> satisfies_filters parseDate filters entry"
    using that some by simp
  have again: "query parseDate
               (fs\<lparr>disk := Stored (store\<lparr>entries :=
                  filter (satisfies_filters parseDate filters) (entries store)\<rparr>)\<rparr>) now' filters
             = Inr (filter (satisfies_filters parseDate filters) (entries store))"
    by (simp add: query_def load_def matches_iff)
  from all some none again show ?thesis by simp
qed

theorem query_is_filter_witness:
  "load (sample_fs [build_ok, idle_command, build_failed]) [] =
     Inr \<lparr>entries = [build_ok, idle_command, build_failed],
          metadata = \<lparr>version = ''1.0'', lastUpdated = ''2025-01-12T18:30:00.000Z''\<rparr>\<rparr>
   \<and> query sample_parseDate (sample_fs [build_ok, idle_command, build_failed]) []
        \<lparr>f_agent = Some ''sisyphus'', f_startTime = Some (Fin 1736679600000),
         f_endTime = None, f_category = None\<rparr> = Inr [build_failed]
   \<and> query sample_parseDate (sample_fs [build_ok, idle_command, build_failed]) []
        \<lparr>f_agent = Some ''librarian'', f_startTime = None, f_endTime = None, f_category = None\<rparr>
       = Inr []"
proof -
  let ?store = "\<lparr>entries = [build_ok, idle_command, build_failed],
          metadata = \<lparr>version = ''1.0'', lastUpdated = ''2025-01-12T18:30:00.000Z''\<rparr>\<rparr>"
  have l: "load (sample_fs [build_ok, idle_command, build_failed]) [] = Inr ?store"
    by (simp add: load_def sample_fs_def)
  have f1: "filter (satisfies_filters sample_parseDate
        \<lparr>f_agent = Some ''sisyphus'', f_startTime = Some (Fin 1736679600000),
         f_endTime = None, f_category = None\<rparr>) (entries ?store) = [build_failed]"
    by (simp add: satisfies_filters_def build_ok_def idle_command_def build_failed_def
        sample_entry_def sample_parseDate_def js_ge_def)
  have f2: "filter (satisfies_filters sample_parseDate
        \<lparr>f_agent = Some ''librarian'', f_startTime = None, f_endTime = None, f_category = None\<rparr>)
        (entries ?store) = []"
    by (simp add: satisfies_filters_def build_ok_def idle_command_def build_failed_def
        sample_entry_def)
  show ?thesis
    using query_is_filter [OF l, of sample_parseDate
        "\<lparr>f_agent = Some ''sisyphus'', f_startTime = Some (Fin 1736679600000),
         f_endTime = None, f_category = None\<rparr>"]
      query_is_filter [OF l, of sample_parseDate
        "\<lparr>f_agent = Some ''librarian'', f_startTime = None, f_endTime = None, f_category = None\<rparr>"]
      l f1 f2
    by simp
qed

text \<open>
  A filter on the agent \<^verbatim>\<open>""\<close> returns an entry of the agent \<open>sisyphus\<close>, and a
  start time returns an entry whose timestamp is not a date.
\<close>

theorem query_empty_agent_counterexample:
  "query sample_parseDate (sample_fs [build_ok]) []
     \<lparr>f_agent = Some [], f_startTime = None, f_endTime = None, f_category = None\<rparr>
     = Inr [build_ok]
   \<and> agent build_ok = ''sisyphus''
   \<and> query sample_parseDate (sample_fs [undated_entry]) []
       \<lparr>f_agent = None, f_startTime = Some (Fin 1736676000000), f_endTime = None,
        f_category = None\<rparr>
       = Inr [undated_entry]
   \<and> sample_parseDate (timestamp undated_entry) = NaN"
  by (simp add: query_def load_def sample_fs_def matches_def truthy_def build_ok_def
      undated_entry_def sample_entry_def sample_parseDate_def)

subsection \<open>Usage patterns\<close>

text \<open>
  Claim C4, against the code. \<open>groupBySkill\<close> returns a \<^verbatim>\<open>Map\<close> and
  \<open>analyzePatterns\<close> iterates over \<^verbatim>\<open>Object.entries(skills)\<close>, which is empty for
  a \<^verbatim>\<open>Map\<close>: the loop body never runs and the result is the empty sequence for every
  input. For the two runs of the skill \<open>build\<close> the frequencies add up to 0, while two
  entries are skill-typed.
\<close>

theorem analyzePatterns_returns_nothing:
  "analyzePatterns metrics = Inr []
   \<and> analyzePatterns [build_ok, build_failed] = Inr []
   \<and> length (filter (\<lambda>m. type (invocation m) = ''skill'') [build_ok, build_failed]) = 2"
  by (simp add: analyzePatterns_def groupBySkill_def sort_by_frequency_def build_ok_def
      build_failed_def sample_entry_def)

text \<open>
  What the loop computes on the entries the map holds (\<^verbatim>\<open>skills.entries()\<close>): one
  pattern for each group, the frequencies adding up to the number of skill-typed entries,
  in descending order after the sort.
\<close>

lemma push_group_size:
  "sum_list (map (\<lambda>g. length (snd g)) (push_group groups k m))
     = sum_list (map (\<lambda>g. length (snd g)) groups) + 1"
  by (induction groups k m rule: push_group.induct) auto

lemma push_group_nonempty:
  "\<forall>g \<in> set groups. snd g \<noteq> [] \<Longrightarrow> \<forall>g \<in> set (push_group groups k m). snd g \<noteq> []"
  by (induction groups k m rule: push_group.induct) auto

lemma group_fold_size:
  "sum_list (map (\<lambda>g. length (snd g))
      (foldl (\<lambda>groups m.
              if type (invocation m) = ''skill'' then push_group groups (name (invocation m)) m
              else groups) acc metrics))
     = sum_list (map (\<lambda>g. length (snd g)) acc)
       + length (filter (\<lambda>m. type (invocation m) = ''skill'') metrics)"
  by (induction metrics arbitrary: acc) (auto simp: push_group_size)

lemma group_fold_nonempty:
  "\<forall>g \<in> set acc. snd g \<noteq> [] \<Longrightarrow>
     \<forall>g \<in> set (foldl (\<lambda>groups m.
              if type (invocation m) = ''skill'' then push_group groups (name (invocation m)) m
              else groups) acc metrics). snd g \<noteq> []"
proof (induction metrics arbitrary: acc)
  case Nil
  then show ?case by simp
next
  case (Cons m metrics)
  let ?acc' = "if type (invocation m) = ''skill''
      then push_group acc (name (invocation m)) m else acc"
  have "\<forall>g \<in> set ?acc'. snd g \<noteq> []"
    using Cons.prems push_group_nonempty [of acc] by simp
  from Cons.IH [OF this] show ?case by simp
qed

lemma descending_frequencies:
  "sorted (map (\<lambda>p. - int (f p)) xs) \<Longrightarrow> sorted (rev (map f xs))"
  by (induction xs) (auto simp: sorted_append)

lemma patternOf_frequency:
  "snd pair \<noteq> [] \<Longrightarrow> \<exists>p. patternOf pair = Inr p \<and> frequency p = length (snd pair) \<and> skill p = fst pair"
  by (cases pair) (auto simp: patternOf_def at_index_def Let_def)

lemma patterns_loop_frequencies:
  "\<forall>g \<in> set groups. snd g \<noteq> [] \<Longrightarrow>
     \<exists>ps. patterns_loop groups acc = Inr ps
        \<and> map frequency ps = map frequency acc @ map (\<lambda>g. length (snd g)) groups"
proof (induction groups arbitrary: acc)
  case Nil
  then show ?case by simp
next
  case (Cons g groups)
  then obtain p where p: "patternOf g = Inr p" "frequency p = length (snd g)"
    using patternOf_frequency [of g] by auto
  from Cons.IH [of "acc @ [p]"] Cons.prems p show ?case by auto
qed

lemma sum_list_insort_key:
  "sum_list (map g (insort_key f x xs)) = g x + sum_list (map g xs)" for g :: "'a \<Rightarrow> nat"
  by (induction xs) auto

lemma sum_list_sort_key:
  "sum_list (map g (sort_key f xs)) = sum_list (map g xs)" for g :: "'a \<Rightarrow> nat"
  by (induction xs) (auto simp: sum_list_insort_key)

lemma patterns_of_map_entries:
  "\<exists>ps. patterns_loop (Map_entries (groupBySkill metrics)) [] = Inr ps
     \<and> sum_list (map frequency (sort_by_frequency ps))
         = length (filter (\<lambda>m. type (invocation m) = ''skill'') metrics)
     \<and> sorted (rev (map frequency (sort_by_frequency ps)))"
proof -
  have ne: "\<forall>g \<in> set (group_entries metrics). snd g \<noteq> []"
    unfolding group_entries_def by (rule group_fold_nonempty) simp
  then obtain ps where ps: "patterns_loop (group_entries metrics) [] = Inr ps"
    "map frequency ps = map (\<lambda>g. length (snd g)) (group_entries metrics)"
    using patterns_loop_frequencies [of "group_entries metrics" "[]"] by auto
  have "sum_list (map frequency ps) = length (filter (\<lambda>m. type (invocation m) = ''skill'') metrics)"
    using group_fold_size [of "[]" metrics] by (simp add: ps(2) group_entries_def)
  moreover have "sorted (map (\<lambda>p. - int (frequency p)) (sort_by_frequency ps))"
    by (simp add: sort_by_frequency_def)
  then have "sorted (rev (map frequency (sort_by_frequency ps)))"
    by (rule descending_frequencies)
  ultimately show ?thesis
    using ps(1) by (auto simp: groupBySkill_def sort_by_frequency_def sum_list_sort_key)
qed

text \<open>
  The hour the loop body reads, and its bucket. A group of the map holds the skill-typed
  entries of one name in the order of the input, so the entry that decides is the first
  entry of that skill in the input.
\<close>

lemma split_acc_unfold:
  "split_acc c cur xs =
     (rev cur @ takeWhile (\<lambda>x. x \<noteq> c) xs)
       # (case dropWhile (\<lambda>x. x \<noteq> c) xs of [] \<Rightarrow> [] | _ # rest \<Rightarrow> split_acc c [] rest)"
  by (induction xs arbitrary: cur) auto

lemma split_second:
  assumes "c \<notin> set day"
  shows "at_index (split c (day @ c # tail)) 1 = Some (takeWhile (\<lambda>x. x \<noteq> c) tail)"
proof -
  have day: "\<forall>x \<in> set day. x \<noteq> c"
    using assms by auto
  have "takeWhile (\<lambda>x. x \<noteq> c) (day @ c # tail) = day"
    using day by (simp add: takeWhile_append2)
  moreover have "dropWhile (\<lambda>x. x \<noteq> c) (day @ c # tail) = c # tail"
    using day by (simp add: dropWhile_append2)
  ultimately have "split c (day @ c # tail) = day # split_acc c [] tail"
    unfolding split_def by (subst split_acc_unfold) simp
  also have "split_acc c [] tail = takeWhile (\<lambda>x. x \<noteq> c) tail
       # (case dropWhile (\<lambda>x. x \<noteq> c) tail of [] \<Rightarrow> [] | _ # rest \<Rightarrow> split_acc c [] rest)"
    by (subst split_acc_unfold) simp
  finally show ?thesis
    by (simp add: at_index_def)
qed

lemma decimal_digit:
  assumes "digit_value c = Some d" and "d < 10"
  shows "48 \<le> (of_char c :: nat)" and "(of_char c :: nat) \<le> 57" and "d = of_char c - 48"
  using assms by (auto simp: digit_value_def Let_def split: if_splits)

lemma parseInt_two_digits:
  assumes "digit_value h1 = Some a" and "a < 10" and "digit_value h2 = Some b" and "b < 10"
  shows "parseInt (Some (h1 # h2 # CHR '':'' # rest)) = Fin (real (10 * a + b))"
proof -
  note d1 = decimal_digit [OF assms(1,2)] and d2 = decimal_digit [OF assms(3,4)]
  have white: "\<not> is_white h1"
    using d1 by (auto simp: is_white_def)
  have sign: "h1 \<noteq> CHR ''-''" "h1 \<noteq> CHR ''+''"
    using d1 by auto
  have hex: "h2 \<noteq> CHR ''x''" "h2 \<noteq> CHR ''X''"
    using d2 by auto
  have run: "takeWhile (is_digit 10) (h1 # h2 # CHR '':'' # rest) = [h1, h2]"
    using assms by (simp add: is_digit_def digit_value_def)
  have "10 * a + b \<le> 99"
    using assms by simp
  then have "real (10 * a + b) \<le> 99"
    by (metis of_nat_le_iff of_nat_numeral)
  then have small: "fin (real (10 * a + b)) = Fin (real (10 * a + b))"
    by (intro fin_Fin) simp
  have "digits_value 10 [h1, h2] = 10 * a + b"
    using assms by (simp add: digits_value_def)
  then show ?thesis
    using white sign hex run small by (simp add: parseInt_def Let_def)
qed

lemma getTimeOfDay_Fin:
  "getTimeOfDay (Fin h) =
     (if 5 \<le> h \<and> h < 12 then morning
      else if 12 \<le> h \<and> h < 17 then afternoon
      else if 17 \<le> h \<and> h < 21 then evening
      else night)"
  by (auto simp: getTimeOfDay_def js_ge_def)

lemma hour_of_iso_timestamp:
  assumes ts: "timestamp first = day @ CHR ''T'' # h1 # h2 # CHR '':'' # rest"
    and day: "CHR ''T'' \<notin> set day"
    and h1: "digit_value h1 = Some a" "a < 10" and h2: "digit_value h2 = Some b" "b < 10"
  shows "parseInt (at_index (split (CHR ''T'') (timestamp first)) 1) = Fin (real (10 * a + b))"
proof -
  have "h1 \<noteq> CHR ''T''" "h2 \<noteq> CHR ''T''"
    using decimal_digit(2) [OF h1] decimal_digit(2) [OF h2] by auto
  then have run: "takeWhile (\<lambda>x. x \<noteq> CHR ''T'') (h1 # h2 # CHR '':'' # rest)
               = h1 # h2 # CHR '':'' # takeWhile (\<lambda>x. x \<noteq> CHR ''T'') rest"
    by simp
  have "at_index (split (CHR ''T'') (timestamp first)) 1
          = Some (takeWhile (\<lambda>x. x \<noteq> CHR ''T'') (h1 # h2 # CHR '':'' # rest))"
    unfolding ts by (rule split_second [OF day])
  then show ?thesis
    unfolding run by (simp only: parseInt_two_digits [OF h1 h2])
qed

lemma patternOf_first:
  "\<exists>p. patternOf (k, first # others) = Inr p \<and> skill p = k
       \<and> frequency p = Suc (length others)
       \<and> timeOfDay p
           = getTimeOfDay (parseInt (at_index (split (CHR ''T'') (timestamp first)) 1))"
  by (simp add: patternOf_def at_index_def Let_def)

lemma push_group_map_of:
  "map_of (push_group groups k m)
     = (map_of groups)(k \<mapsto> (case map_of groups k of None \<Rightarrow> [m] | Some ms \<Rightarrow> ms @ [m]))"
  by (induction groups k m rule: push_group.induct) (auto simp: fun_eq_iff)

lemma push_group_keys:
  "distinct (map fst groups) \<Longrightarrow> distinct (map fst (push_group groups k m))"
  and "fst ` set (push_group groups k m) = insert k (fst ` set groups)"
  by (induction groups k m rule: push_group.induct) auto

lemma group_fold_keys:
  "distinct (map fst acc) \<Longrightarrow>
     distinct (map fst (foldl (\<lambda>groups m.
              if type (invocation m) = ''skill'' then push_group groups (name (invocation m)) m
              else groups) acc metrics))"
  by (induction metrics arbitrary: acc) (simp_all add: push_group_keys(1))

lemma group_fold_map_of:
  "map_of (foldl (\<lambda>groups m.
              if type (invocation m) = ''skill'' then push_group groups (name (invocation m)) m
              else groups) acc metrics) k
     = (let ms = filter (\<lambda>m. type (invocation m) = ''skill'' \<and> name (invocation m) = k) metrics
        in case map_of acc k of
             None \<Rightarrow> (if ms = [] then None else Some ms)
           | Some old \<Rightarrow> Some (old @ ms))"
  by (induction metrics arbitrary: acc) (auto simp: push_group_map_of Let_def split: option.splits)

lemma groups_are_filters:
  assumes "(k, ms) \<in> set (Map_entries (groupBySkill metrics))"
  shows "ms \<noteq> []"
    and "ms = filter (\<lambda>m. type (invocation m) = ''skill'' \<and> name (invocation m) = k) metrics"
proof -
  have "distinct (map fst (group_entries metrics))"
    unfolding group_entries_def by (rule group_fold_keys) simp
  then have "map_of (group_entries metrics) k = Some ms"
    using assms by (simp add: groupBySkill_def)
  then show "ms \<noteq> []"
    and "ms = filter (\<lambda>m. type (invocation m) = ''skill'' \<and> name (invocation m) = k) metrics"
    by (auto simp: group_entries_def group_fold_map_of Let_def split: if_splits)
qed

lemma loop_patterns:
  "patterns_loop groups acc = Inr ps \<Longrightarrow> p \<in> set ps \<Longrightarrow>
     p \<in> set acc \<or> (\<exists>g \<in> set groups. patternOf g = Inr p)"
proof (induction groups arbitrary: acc)
  case Nil
  then show ?case by simp
next
  case (Cons g groups)
  from Cons.prems(1) obtain q where q: "patternOf g = Inr q"
    and rest: "patterns_loop groups (acc @ [q]) = Inr ps"
    by (auto split: sum.splits)
  from Cons.IH [OF rest Cons.prems(2)] q show ?case
    by auto
qed

lemma timeOfDay_on_map_entries:
  assumes "patterns_loop (Map_entries (groupBySkill metrics)) [] = Inr ps" and "p \<in> set ps"
  shows "timeOfDay p
           = getTimeOfDay (parseInt (at_index (split (CHR ''T'')
               (timestamp (hd (filter (\<lambda>m. type (invocation m) = ''skill''
                                          \<and> name (invocation m) = skill p) metrics)))) 1))"
proof -
  obtain k ms where g: "(k, ms) \<in> set (Map_entries (groupBySkill metrics))"
    and p: "patternOf (k, ms) = Inr p"
    using loop_patterns [OF assms] by auto
  note ms = groups_are_filters [OF g]
  obtain first others where split: "ms = first # others"
    using ms(1) by (cases ms) auto
  have "skill p = k"
    and "timeOfDay p = getTimeOfDay (parseInt (at_index (split (CHR ''T'') (timestamp first)) 1))"
    using patternOf_first [of k first others] p split by auto
  moreover have "first = hd (filter (\<lambda>m. type (invocation m) = ''skill''
                                          \<and> name (invocation m) = k) metrics)"
    using ms(2) split by (metis list.sel(1))
  ultimately show ?thesis by simp
qed

text \<open>
  Claim C9, against the code. No skill group is produced by \<open>analyzePatterns\<close>, so no
  \<open>timeOfDay\<close> is: for a run of \<open>build\<close> at 10:00 followed by one at 18:30 the
  result is empty, where the claim has one pattern of the morning. The loop body is as the
  claim says: on the entries the map holds it yields the bucket of the first entry's hour,
  \<open>morning\<close> for this input and \<open>evening\<close> for the two runs in the other order.
\<close>

theorem timeOfDay_never_produced:
  "analyzePatterns [build_ok, build_evening] = Inr []
   \<and> map_sum id (map (\<lambda>p. (skill p, frequency p, timeOfDay p)))
         (patterns_loop (Map_entries (groupBySkill [build_ok, build_evening])) [])
       = Inr [(''build'', 2, morning)]
   \<and> map_sum id (map (\<lambda>p. (skill p, frequency p, timeOfDay p)))
         (patterns_loop (Map_entries (groupBySkill [build_evening, build_ok])) [])
       = Inr [(''build'', 2, evening)]"
proof -
  have none: "analyzePatterns [build_ok, build_evening] = Inr []"
    by (simp add: analyzePatterns_def groupBySkill_def sort_by_frequency_def)
  have hours: "parseInt (at_index (split (CHR ''T'') (timestamp build_ok)) 1) = Fin 10"
    "parseInt (at_index (split (CHR ''T'') (timestamp build_evening)) 1) = Fin 18"
    by (simp_all add: build_ok_def build_evening_def sample_entry_def parseInt_def at_index_def
        split_def is_white_def is_digit_def digit_value_def digits_value_def fin_Fin)
  have buckets: "getTimeOfDay (Fin 10) = morning" "getTimeOfDay (Fin 18) = evening"
    by (simp_all add: getTimeOfDay_Fin)
  have groups: "group_entries [build_ok, build_evening] = [(''build'', [build_ok, build_evening])]"
    "group_entries [build_evening, build_ok] = [(''build'', [build_evening, build_ok])]"
    by (simp_all add: group_entries_def build_ok_def build_evening_def sample_entry_def)
  obtain p where p: "patternOf (''build'', [build_ok, build_evening]) = Inr p"
    "skill p = ''build''" "frequency p = 2" "timeOfDay p = morning"
    using patternOf_first [of "''build''" build_ok "[build_evening]"] hours buckets by auto
  obtain q where q: "patternOf (''build'', [build_evening, build_ok]) = Inr q"
    "skill q = ''build''" "frequency q = 2" "timeOfDay q = evening"
    using patternOf_first [of "''build''" build_evening "[build_ok]"] hours buckets by auto
  from none p q show ?thesis
    by (simp add: groupBySkill_def groups)
qed

subsection \<open>Insights of the daily summary\<close>

text \<open>
  Claim C7, against the code. \<open>generateInsights\<close> has three of the six rules: success
  rate below 80, average duration above 30000 ms, fewer than 5 invocations per hour, each
  tested on its own; then it names the most used skill. It has no insight for a success rate
  of 90 or more, for an average duration below 5000 ms or for more than 10 invocations per
  hour: on the metrics of the documentation's example (success rate 95, average duration
  3500 ms, 12.5 invocations per hour) the only insight is the most used skill.
\<close>

theorem generateInsights_example:
  "generateInsights
     (r\<lparr>successRate := Fin 95, averageDuration := Fin 3500, invocationsPerHour := Fin 12.5\<rparr>)
     [\<lparr>top_skill = ''analyze-codebase'', top_count = 15\<rparr>]
     = Inr [MostUsedSkill ''analyze-codebase'' 15]
   \<and> generateInsights r (t # ts)
       = Inr ((if js_lt (successRate r) (Fin 80) then [LowSuccessRate (successRate r)] else [])
              @ (if js_gt (averageDuration r) (Fin 30000)
                 then [HighAverageDuration (js_div (averageDuration r) (Fin 1000))] else [])
              @ (if js_lt (invocationsPerHour r) (Fin 5)
                 then [LowInvocationsPerHour (invocationsPerHour r)] else [])
              @ [MostUsedSkill (top_skill t) (top_count t)])"
  by (simp add: generateInsights_def at_index_def js_gt_def Let_def)

lemma getTopSkills_command: "getTopSkills [idle_command] 5 = []"
  by (simp add: getTopSkills_def skillCounts_def idle_command_def sample_entry_def)

lemma day_of_idle_command:
  "query sample_parseDate (sample_fs [idle_command]) []
     \<lparr>f_agent = None, f_startTime = Some (Fin 1736640000000),
      f_endTime = Some (Date_of_number (js_sub (js_add (Fin 1736640000000)
         (Fin (24 * 60 * 60 * 1000))) (Fin 1))), f_category = None\<rparr> = Inr [idle_command]"
  by (simp add: query_def load_def sample_fs_def matches_def truthy_def js_gt_def js_sub_def
      Date_of_number_def idle_command_def sample_entry_def sample_parseDate_def fin_Fin)

lemma bump_count_nonempty: "bump_count counts k \<noteq> []"
  by (induction counts k rule: bump_count.induct) (auto split: if_splits)

lemma count_fold_empty:
  "(foldl (\<lambda>counts m.
             if type (invocation m) = ''skill'' then bump_count counts (name (invocation m))
             else counts) acc metrics = [])
     = (acc = [] \<and> filter (\<lambda>m. type (invocation m) = ''skill'') metrics = [])"
  by (induction metrics arbitrary: acc) (auto simp: bump_count_nonempty)

lemma getTopSkills_empty_iff:
  "(getTopSkills metrics 5 = []) = (filter (\<lambda>m. type (invocation m) = ''skill'') metrics = [])"
proof -
  have "(sort_key f xs = []) = (xs = [])" for f :: "string \<times> nat \<Rightarrow> int" and xs
    by (metis length_sort length_0_conv)
  then show ?thesis
    by (simp add: getTopSkills_def skillCounts_def count_fold_empty)
qed

text \<open>
  Claim C8, against the code. With at least one top skill the last insight names the first
  of them and its count. With none, which is the case exactly when no entry of the day is
  skill-typed, \<^verbatim>\<open>topSkills[0]\<close> is \<^verbatim>\<open>undefined\<close> and reading its
  \<^verbatim>\<open>skill\<close> throws a \<open>TypeError\<close>: the step is not skipped and the summary of a
  day whose only entry is a command fails (with \<^verbatim>\<open>totalTokensUsed\<close> unbound it
  fails earlier, in \<open>calculate\<close>).
\<close>

theorem most_used_skill_without_skills:
  "generateInsights r [] = Inl TypeError
   \<and> (getTopSkills metrics 5 = [])
       = (filter (\<lambda>m. type (invocation m) = ''skill'') metrics = [])
   \<and> (\<exists>before. generateInsights r (t # ts)
                   = Inr (before @ [MostUsedSkill (top_skill t) (top_count t)]))
   \<and> generateDailySummary (Some (Fin 0)) sample_parseDate (\<lambda>t. ''2025-01-12T00:00:00.000Z'')
         (sample_fs [idle_command]) [] (Fin 1736640000000) = Inl TypeError
   \<and> generateDailySummary None sample_parseDate (\<lambda>t. ''2025-01-12T00:00:00.000Z'')
         (sample_fs [idle_command]) [] (Fin 1736640000000) = Inl ReferenceError"
proof -
  have a: "generateInsights r [] = Inl TypeError" for r
    by (simp add: generateInsights_def at_index_def Let_def)
  obtain m where m: "calculate (Some (Fin 0)) sample_parseDate [idle_command] = Inr m"
    using calculate_Some_returns by blast
  have b: "generateDailySummary (Some (Fin 0)) sample_parseDate (\<lambda>t. ''2025-01-12T00:00:00.000Z'')
         (sample_fs [idle_command]) [] (Fin 1736640000000) = Inl TypeError"
    unfolding generateDailySummary_def Let_def day_of_idle_command
    by (simp add: m getTopSkills_command a)
  have c: "generateDailySummary None sample_parseDate (\<lambda>t. ''2025-01-12T00:00:00.000Z'')
         (sample_fs [idle_command]) [] (Fin 1736640000000) = Inl ReferenceError"
    unfolding generateDailySummary_def Let_def day_of_idle_command
    by (simp add: calculate_None)
  have d: "\<exists>before. generateInsights r (t # ts)
                   = Inr (before @ [MostUsedSkill (top_skill t) (top_count t)])"
    by (simp add: generateInsights_def at_index_def Let_def)
  from a b c d getTopSkills_empty_iff show ?thesis by simp
qed

end
